theory Spec2Isabelle
  imports Main "HOL-Library.Sublist"
begin

section \<open>The remote tool-invocation client (terminal-mcp-orchestrator/mcp_client.py)\<close>

text \<open>
  The class \<open>MCPClient\<close> is embedded as a record of its fields and one function per
  method. A method takes the object and returns its result (a raised exception is
  \<open>Inl\<close>), the calls it made into the \<open>threading\<close> and \<open>requests\<close> libraries and its
  prints, in program order, and the object as the method leaves it.

  The object is shared with the listener thread without a lock. The listener handles
  one stream event at a time, and a method takes, as lists of stream items, what the
  listener handles while the method is under way: while a request of the caller is in
  flight, while the caller is blocked in \<open>Event.wait\<close> (the caller resumes as soon as
  the awaited flag is set, and the items left over are not handled inside the wait),
  and between the return of that wait and the caller's next statement.

  What the libraries decide is a parameter: \<open>loads\<close> stands for \<open>json.loads\<close>, a
  \<open>http_outcome\<close> for one HTTP exchange, \<open>uuid\<close> for the text of \<open>uuid.uuid4()\<close>.
\<close>

subsection \<open>Python values\<close>

text \<open>
  Decoded JSON: \<open>JNull\<close> is Python's \<open>None\<close>. An object is the list of its items, each
  key once. Numbers are restricted to integers.
\<close>

datatype json =
    JNull
  | JBool bool
  | JInt int
  | JStr string
  | JArr "json list"
  | JObj "(string \<times> json) list"

datatype exn =
    TimeoutError string
  | TypeError
  | AttributeError
  | KeyError
  | RecursionError
  | ValueError
  | TransportError string

text \<open>Truth value of a Python object, as \<open>if x:\<close> and \<open>not x\<close> test it.\<close>

fun truthy :: "json \<Rightarrow> bool" where
  "truthy JNull = False"
| "truthy (JBool b) = b"
| "truthy (JInt n) = (n \<noteq> 0)"
| "truthy (JStr s) = (s \<noteq> [])"
| "truthy (JArr xs) = (xs \<noteq> [])"
| "truthy (JObj kvs) = (kvs \<noteq> [])"

text \<open>\<open>d.get(k)\<close> and \<open>d.get(k, default)\<close> on a dict given by its items.\<close>

definition obj_get_default :: "(string \<times> json) list \<Rightarrow> string \<Rightarrow> json \<Rightarrow> json" where
  "obj_get_default kvs k dflt = (case map_of kvs k of None \<Rightarrow> dflt | Some v \<Rightarrow> v)"

definition obj_get :: "(string \<times> json) list \<Rightarrow> string \<Rightarrow> json" where
  "obj_get kvs k = obj_get_default kvs k JNull"

text \<open>
  \<open>s in x\<close> for a string \<open>s\<close>: key membership in a dict, element membership in a list,
  substring test in a string; \<open>TypeError\<close> on \<open>None\<close>, a bool or a number.
\<close>

fun py_in :: "string \<Rightarrow> json \<Rightarrow> exn + bool" where
  "py_in s (JObj kvs) = Inr (s \<in> fst ` set kvs)"
| "py_in s (JArr xs) = Inr (JStr s \<in> set xs)"
| "py_in s (JStr t) = Inr (sublist s t)"
| "py_in s JNull = Inl TypeError"
| "py_in s (JBool b) = Inl TypeError"
| "py_in s (JInt n) = Inl TypeError"

text \<open>\<open>x[s]\<close> for a string \<open>s\<close>: only a dict can be subscripted by a string.\<close>

fun py_getitem :: "json \<Rightarrow> string \<Rightarrow> exn + json" where
  "py_getitem (JObj kvs) s = (case map_of kvs s of None \<Rightarrow> Inl KeyError | Some v \<Rightarrow> Inr v)"
| "py_getitem JNull s = Inl TypeError"
| "py_getitem (JBool b) s = Inl TypeError"
| "py_getitem (JInt n) s = Inl TypeError"
| "py_getitem (JStr t) s = Inl TypeError"
| "py_getitem (JArr xs) s = Inl TypeError"

text \<open>\<open>len(x)\<close>; \<open>None\<close> stands for the \<open>TypeError\<close> on an object without length.\<close>

fun py_len :: "json \<Rightarrow> nat option" where
  "py_len (JArr xs) = Some (length xs)"
| "py_len (JStr s) = Some (length s)"
| "py_len (JObj kvs) = Some (length kvs)"
| "py_len JNull = None"
| "py_len (JBool b) = None"
| "py_len (JInt n) = None"

text \<open>
  Keys of the two correlation dicts. Python hashes \<open>True\<close> and \<open>1\<close> to the same key;
  a list or a dict is unhashable (\<open>None\<close> here, \<open>TypeError\<close> in the code).
\<close>

datatype key = KNone | KInt int | KStr string

fun key_of :: "json \<Rightarrow> key option" where
  "key_of JNull = Some KNone"
| "key_of (JBool b) = Some (KInt (if b then 1 else 0))"
| "key_of (JInt n) = Some (KInt n)"
| "key_of (JStr s) = Some (KStr s)"
| "key_of (JArr xs) = None"
| "key_of (JObj kvs) = None"

text \<open>\<open>str(n)\<close> for an integer, used by the f-strings.\<close>

fun str_nat :: "nat \<Rightarrow> string" where
  "str_nat n =
     (if n < 10 then [''0123456789'' ! n]
      else str_nat (n div 10) @ [''0123456789'' ! (n mod 10)])"

declare str_nat.simps [simp del]

definition str_int :: "int \<Rightarrow> string" where
  "str_int i = (if i < 0 then CHR ''-'' # str_nat (nat (- i)) else str_nat (nat i))"

definition rstrip_slash :: "string \<Rightarrow> string" where
  "rstrip_slash s = rev (dropWhile (\<lambda>ch. ch = CHR ''/'') (rev s))"

subsection \<open>The environment and the effects\<close>

text \<open>
  What \<open>json.loads\<close> does with a text: it returns the decoded value, raises
  \<open>JSONDecodeError\<close>, or raises another exception (\<open>RecursionError\<close> on a text nested
  too deeply, a plain \<open>ValueError\<close> on a number with too many digits).
\<close>

datatype loads_outcome = Decoded json | JSONDecodeError | LoadsRaised exn

type_synonym loads = "string \<Rightarrow> loads_outcome"

text \<open>
  One HTTP exchange: the decoded body of a good response, or the text of the exception
  that \<open>requests.get\<close>/\<open>requests.post\<close>, \<open>raise_for_status\<close> or \<open>response.json\<close> raised,
  with the text of the response the exception carries, if it carries a truthy one.
\<close>

datatype http_outcome = Responded json | Raised string "string option"

text \<open>
  What the listener meets on the stream: an event, given by its \<open>data\<close>, or the
  exception raised by the request or by the event iterator.
\<close>

datatype stream_item = Event string | StreamError string

datatype waitable = ConnectionEvent | ToolEvent key

datatype log_line =
    LogConnecting string
  | LogConnected json
  | LogToolResult json
  | LogNonJson string
  | LogSSEError exn
  | LogGettingTools string
  | LogRetrieved nat
  | LogToolsError exn
  | LogInvoking string
  | LogParameters json
  | LogSendError string
  | LogResponse string
  | LogWaiting string
  | LogDisconnected

datatype effect =
    Print log_line
  | Thread_start
  | Thread_join
  | Event_new waitable
  | Event_set waitable
  | Event_wait waitable int bool
  | Http_get string
  | Http_post string json

subsection \<open>The object\<close>

datatype thread = Thread

text \<open>
  A \<open>threading.Event\<close> is its flag. The constant \<open>headers\<close> field is left out.
\<close>

record MCPClient =
  server_url :: string
  client_id :: json
  sse_thread :: "thread option"
  running :: bool
  connected :: bool
  tools_cache :: json
  tool_results :: "key \<rightharpoonup> json"
  tool_events :: "key \<rightharpoonup> bool"
  connection_event :: bool

definition init :: "string \<Rightarrow> MCPClient" where
  "init url =
     \<lparr> server_url = rstrip_slash url, client_id = JNull, sse_thread = None,
       running = False, connected = False, tools_cache = JNull,
       tool_results = Map.empty, tool_events = Map.empty, connection_event = False \<rparr>"

subsection \<open>The listener\<close>

datatype loop_status = Continue | Stopped

text \<open>
  The \<open>except Exception\<close> clause around the whole listener (lines 110 to 113), entered
  with the effects the iteration had made before it raised.
\<close>

definition listener_raise ::
  "exn \<Rightarrow> effect list \<Rightarrow> MCPClient \<Rightarrow> loop_status \<times> effect list \<times> MCPClient" where
  "listener_raise e fx c =
     (Stopped, fx @ [Print (LogSSEError e), Event_set ConnectionEvent],
      c\<lparr>running := False, connection_event := True\<rparr>)"

text \<open>
  Lines 89 to 105 on the value \<open>json.loads\<close> returned. \<open>data.get\<close> on anything but a
  dict raises \<open>AttributeError\<close>, and an unhashable \<open>id\<close> raises \<open>TypeError\<close> at the store;
  neither is a \<open>JSONDecodeError\<close>, so both reach the outer clause.
\<close>

fun handle_data :: "json \<Rightarrow> MCPClient \<Rightarrow> loop_status \<times> effect list \<times> MCPClient" where
  "handle_data (JObj kvs) c =
     (if obj_get kvs ''type'' = JStr ''connected'' then
        (Continue,
         [Print (LogConnected (obj_get kvs ''clientId'')), Event_set ConnectionEvent],
         c\<lparr>client_id := obj_get kvs ''clientId'', connected := True,
           connection_event := True\<rparr>)
      else if obj_get kvs ''type'' = JStr ''tool_result'' then
        (let message_id = obj_get kvs ''id'' in
         case key_of message_id of
           None \<Rightarrow> listener_raise TypeError [Print (LogToolResult message_id)] c
         | Some k \<Rightarrow>
             (let c1 = c\<lparr>tool_results := (tool_results c)(k \<mapsto> JObj kvs)\<rparr> in
              case tool_events c1 k of
                None \<Rightarrow> (Continue, [Print (LogToolResult message_id)], c1)
              | Some flag \<Rightarrow>
                  (Continue, [Print (LogToolResult message_id), Event_set (ToolEvent k)],
                   c1\<lparr>tool_events := (tool_events c1)(k \<mapsto> True)\<rparr>)))
      else (Continue, [], c))"
| "handle_data JNull c = listener_raise AttributeError [] c"
| "handle_data (JBool b) c = listener_raise AttributeError [] c"
| "handle_data (JInt n) c = listener_raise AttributeError [] c"
| "handle_data (JStr s) c = listener_raise AttributeError [] c"
| "handle_data (JArr xs) c = listener_raise AttributeError [] c"

text \<open>
  One turn of the \<open>for event in client.events()\<close> loop (lines 81 to 108). The clause of
  line 107 catches \<open>JSONDecodeError\<close> only: any other exception of \<open>json.loads\<close> reaches
  the outer clause.
\<close>

fun listener_item ::
  "loads \<Rightarrow> stream_item \<Rightarrow> MCPClient \<Rightarrow> loop_status \<times> effect list \<times> MCPClient" where
  "listener_item loads (StreamError msg) c = listener_raise (TransportError msg) [] c"
| "listener_item loads (Event d) c =
     (if \<not> running c then (Stopped, [], c)
      else if d = [] then (Continue, [], c)
      else case loads d of
             JSONDecodeError \<Rightarrow> (Continue, [Print (LogNonJson d)], c)
           | LoadsRaised e \<Rightarrow> listener_raise e [] c
           | Decoded data \<Rightarrow> handle_data data c)"

text \<open>
  The loop over the items, left when the listener stops, when the items are used up, or
  when \<open>wake\<close> holds: the condition a blocked caller waits for.
\<close>

fun listen_until ::
  "(MCPClient \<Rightarrow> bool) \<Rightarrow> loads \<Rightarrow> stream_item list \<Rightarrow> MCPClient \<Rightarrow> effect list \<times> MCPClient" where
  "listen_until wake loads [] c = ([], c)"
| "listen_until wake loads (it # its) c =
     (if wake c then ([], c)
      else case listener_item loads it c of
             (Stopped, fx, c') \<Rightarrow> (fx, c')
           | (Continue, fx, c') \<Rightarrow>
               (case listen_until wake loads its c' of (fx', c'') \<Rightarrow> (fx @ fx', c'')))"

text \<open>
  \<open>_sse_listener\<close> from its first line (lines 72 to 113): the request for the stream,
  then the loop. A failed request is a \<open>StreamError\<close> as the first item.
\<close>

definition sse_listener ::
  "(MCPClient \<Rightarrow> bool) \<Rightarrow> loads \<Rightarrow> stream_item list \<Rightarrow> MCPClient \<Rightarrow> effect list \<times> MCPClient" where
  "sse_listener wake loads items c =
     (case listen_until wake loads items c of
        (fx, c') \<Rightarrow>
          (Print (LogConnecting (server_url c @ ''/sse'')) # Http_get (server_url c @ ''/sse'') # fx,
           c'))"

subsection \<open>The methods\<close>

text \<open>
  \<open>connect\<close> (lines 48 to 70). \<open>items\<close> is what the listener started here meets
  before \<open>connection_event.wait\<close> returns or expires.
\<close>

definition connect ::
  "loads \<Rightarrow> int \<Rightarrow> stream_item list \<Rightarrow> MCPClient \<Rightarrow> (exn + json) \<times> effect list \<times> MCPClient" where
  "connect loads timeout items c =
     (if connected c then (Inr (client_id c), [], c)
      else
        (let c1 = c\<lparr>running := True, sse_thread := Some Thread\<rparr> in
         case sse_listener connection_event loads items c1 of
           (fx, c2) \<Rightarrow>
             if \<not> connection_event c2
             then (Inl (TimeoutError ''Failed to establish SSE connection within timeout period''),
                   Thread_start # fx @ [Event_wait ConnectionEvent timeout False], c2)
             else (Inr (client_id c2),
                   Thread_start # fx @ [Event_wait ConnectionEvent timeout True], c2)))"

text \<open>
  The \<open>try\<close> body of \<open>get_tools\<close> (lines 131 to 139) up to the assignment: the tool
  list and its length, or the exception.
\<close>

fun fetch_tools :: "http_outcome \<Rightarrow> exn + json \<times> nat" where
  "fetch_tools (Raised msg resp) = Inl (TransportError msg)"
| "fetch_tools (Responded (JObj kvs)) =
     (let tools = obj_get_default kvs ''tools'' (JArr []) in
      case py_len tools of None \<Rightarrow> Inl TypeError | Some n \<Rightarrow> Inr (tools, n))"
| "fetch_tools (Responded other) = Inl AttributeError"

text \<open>\<open>get_tools\<close> (lines 125 to 142).\<close>

definition get_tools ::
  "http_outcome \<Rightarrow> MCPClient \<Rightarrow> (exn + json) \<times> effect list \<times> MCPClient" where
  "get_tools resp c =
     (if truthy (tools_cache c) then (Inr (tools_cache c), [], c)
      else
        (let url = server_url c @ ''/tools'' in
         case fetch_tools resp of
           Inl e \<Rightarrow>
             (Inr (JArr []),
              [Print (LogGettingTools url), Http_get url, Print (LogToolsError e)], c)
         | Inr (tools, n) \<Rightarrow>
             (Inr tools,
              [Print (LogGettingTools url), Http_get url, Print (LogRetrieved n)],
              c\<lparr>tools_cache := tools\<rparr>)))"

text \<open>
  \<open>_send_tool_invocation\<close> (lines 191 to 221). The method itself changes nothing of
  the object; \<open>in_flight\<close> is what the listener handles while \<open>requests.post\<close> is under
  way.
\<close>

definition send_tool_invocation ::
  "loads \<Rightarrow> http_outcome \<Rightarrow> stream_item list \<Rightarrow> string \<Rightarrow> string \<Rightarrow> json \<Rightarrow> MCPClient
     \<Rightarrow> json \<times> effect list \<times> MCPClient" where
  "send_tool_invocation loads post in_flight message_id tool_name parameters c =
     (if \<not> truthy (client_id c)
      then (JObj [(''error'', JStr ''Not connected. Call connect() first'')], [], c)
      else
        (let payload =
               JObj [(''id'', JStr message_id), (''type'', JStr ''invoke_tool''),
                     (''content'', JObj [(''name'', JStr tool_name), (''parameters'', parameters)]),
                     (''clientId'', client_id c)];
             sent = [Print (LogInvoking tool_name), Print (LogParameters parameters),
                     Http_post (server_url c @ ''/messages'') payload]
         in case listen_until (\<lambda>s. False) loads in_flight c of
           (heard, c') \<Rightarrow>
             (case post of
                Responded body \<Rightarrow> (body, sent @ heard, c')
              | Raised msg resp \<Rightarrow>
                  (JObj [(''error'', JStr msg)],
                   sent @ heard @ [Print (LogSendError msg)] @
                     (case resp of None \<Rightarrow> [] | Some t \<Rightarrow> [Print (LogResponse t)]),
                   c'))))"

text \<open>\<open>tool_result or {"error": "No result received"}\<close> (line 189).\<close>

definition no_result :: "json \<Rightarrow> json" where
  "no_result tool_result =
     (if truthy tool_result then tool_result
      else JObj [(''error'', JStr ''No result received'')])"

text \<open>Lines 180 to 187, on \<open>content_items\<close>.\<close>

fun extract_text :: "loads \<Rightarrow> json \<Rightarrow> json \<Rightarrow> exn + json" where
  "extract_text loads tool_result (JArr (item # rest)) =
     (case py_in ''text'' item of
        Inl e \<Rightarrow> Inl e
      | Inr False \<Rightarrow> Inr (no_result tool_result)
      | Inr True \<Rightarrow>
          (case py_getitem item ''text'' of
             Inl e \<Rightarrow> Inl e
           | Inr (JStr result_text) \<Rightarrow>
               (case loads result_text of
                  Decoded result_data \<Rightarrow> Inr result_data
                | JSONDecodeError \<Rightarrow> Inr (JObj [(''text'', JStr result_text)])
                | LoadsRaised e \<Rightarrow> Inl e)
           | Inr other \<Rightarrow> Inl TypeError))"
| "extract_text loads tool_result other = Inr (no_result tool_result)"

text \<open>Lines 177 to 189, on what \<open>self.tool_results.get(message_id)\<close> returned.\<close>

definition extract_content :: "loads \<Rightarrow> json \<Rightarrow> exn + json" where
  "extract_content loads tool_result =
     (if \<not> truthy tool_result then Inr (no_result tool_result)
      else case py_in ''content'' tool_result of
             Inl e \<Rightarrow> Inl e
           | Inr False \<Rightarrow> Inr (no_result tool_result)
           | Inr True \<Rightarrow>
               (case py_getitem tool_result ''content'' of
                  Inl e \<Rightarrow> Inl e
                | Inr inner \<Rightarrow>
                    (case py_in ''content'' inner of
                       Inl e \<Rightarrow> Inl e
                     | Inr False \<Rightarrow> Inr (no_result tool_result)
                     | Inr True \<Rightarrow>
                         (case py_getitem inner ''content'' of
                            Inl e \<Rightarrow> Inl e
                          | Inr content_items \<Rightarrow>
                              extract_text loads tool_result content_items))))"

text \<open>
  \<open>invoke_tool\<close> (lines 144 to 189). \<open>in_flight\<close> is what the listener handles while
  the dispatch is under way, \<open>items\<close> what it meets while the caller waits on the event
  of the request, and \<open>late\<close> what it handles between the return of that wait (line
  165) and the caller's next statement (line 166 or line 170).
\<close>

definition invoke_tool ::
  "loads \<Rightarrow> string \<Rightarrow> http_outcome \<Rightarrow> stream_item list \<Rightarrow> stream_item list \<Rightarrow> stream_item list
     \<Rightarrow> string \<Rightarrow> json \<Rightarrow> int \<Rightarrow> MCPClient \<Rightarrow> (exn + json) \<times> effect list \<times> MCPClient" where
  "invoke_tool loads uuid post in_flight items late tool_name parameters timeout c =
     (let message_id = ''msg-'' @ uuid;
          k = KStr message_id;
          c1 = c\<lparr>tool_events := (tool_events c)(k \<mapsto> False)\<rparr>
      in case send_tool_invocation loads post in_flight message_id tool_name parameters c1 of
        (result, sent, c2) \<Rightarrow>
          (case py_in ''error'' result of
             Inl e \<Rightarrow> (Inl e, Event_new (ToolEvent k) # sent, c2)
           | Inr True \<Rightarrow> (Inr result, Event_new (ToolEvent k) # sent, c2)
           | Inr False \<Rightarrow>
               (case listen_until (\<lambda>s. tool_events s k = Some True) loads items c2 of
                  (heard, c3) \<Rightarrow>
                    (case tool_events c3 k of
                       None \<Rightarrow>
                         (Inl KeyError,
                          Event_new (ToolEvent k) # sent @ [Print (LogWaiting message_id)] @ heard,
                          c3)
                     | Some signalled \<Rightarrow>
                         (case listen_until (\<lambda>s. False) loads late c3 of
                            (heard_late, c4) \<Rightarrow>
                              (let fx = Event_new (ToolEvent k) # sent
                                     @ [Print (LogWaiting message_id)] @ heard
                                     @ [Event_wait (ToolEvent k) timeout signalled] @ heard_late
                               in if \<not> signalled
                                  then
                                    (Inr (JObj [(''error'',
                                        JStr (''Timeout waiting for tool result after ''
                                              @ str_int timeout @ '' seconds''))]),
                                     fx,
                                     c4\<lparr>tool_events := (tool_events c4)(k := None)\<rparr>)
                                  else
                                    (extract_content loads
                                       (case tool_results c4 k of None \<Rightarrow> JNull | Some r \<Rightarrow> r),
                                     fx,
                                     c4\<lparr>tool_events := (tool_events c4)(k := None),
                                        tool_results := (tool_results c4)(k := None)\<rparr>)))))))"

text \<open>\<open>disconnect\<close> (lines 223 to 231); it returns \<open>None\<close>.\<close>

definition disconnect :: "MCPClient \<Rightarrow> (exn + json) \<times> effect list \<times> MCPClient" where
  "disconnect c =
     (Inr JNull,
      (case sse_thread c of None \<Rightarrow> [] | Some t \<Rightarrow> [Thread_join]) @ [Print LogDisconnected],
      c\<lparr>running := False, connected := False, client_id := JNull, tools_cache := JNull\<rparr>)"

subsection \<open>Sample inputs\<close>

text \<open>A text of 2048 opening brackets, on which \<open>json.loads\<close> raises \<open>RecursionError\<close>.\<close>

definition deep_text :: string where
  "deep_text = replicate 2048 (CHR ''['')"

text \<open>
  \<open>json.loads\<close> on the event texts of the examples; any other text there is not JSON.
\<close>

definition sample_loads :: loads where
  \<open>sample_loads s =
     (if s = deep_text then LoadsRaised RecursionError
      else if s = ''{"type": "connected", "clientId": "abc123"}''
      then Decoded (JObj [(''type'', JStr ''connected''), (''clientId'', JStr ''abc123'')])
      else if s = ''{"type": "tool_result", "id": "msg-late", "content": {}}''
      then Decoded (JObj [(''type'', JStr ''tool_result''), (''id'', JStr ''msg-late''),
                          (''content'', JObj [])])
      else if s = ''{"type": "tool_result", "id": "msg-7f3a", "content": {}}''
      then Decoded (JObj [(''type'', JStr ''tool_result''), (''id'', JStr ''msg-7f3a''),
                          (''content'', JObj [])])
      else JSONDecodeError)\<close>

text \<open>A client after the handshake \<open>{"type": "connected", "clientId": "abc123"}\<close>.\<close>

definition connected_client :: MCPClient where
  "connected_client =
     (init ''http://localhost:8080/'')
       \<lparr>client_id := JStr ''abc123'', sse_thread := Some Thread, running := True,
        connected := True, connection_event := True\<rparr>"

section \<open>Properties\<close>

subsection \<open>The sample texts\<close>

lemma deep_text_not_empty:
  "deep_text \<noteq> []"
  by (simp add: deep_text_def)

lemma deep_text_differs:
  "ch \<noteq> CHR ''['' \<Longrightarrow> (ch # s = deep_text) = False"
proof -
  assume other: "ch \<noteq> CHR ''[''"
  have "hd deep_text = CHR ''[''"
    by (simp add: deep_text_def)
  then have "ch # s \<noteq> deep_text"
    using other by (metis list.sel(1))
  then show ?thesis
    by simp
qed

subsection \<open>What the listener can and cannot do\<close>










text \<open>Whenever the listener has set the connected flag, it has set the handshake event.\<close>

lemma handle_data_handshake:
  "connected c \<longrightarrow> connection_event c \<Longrightarrow>
   connected (snd (snd (handle_data data c))) \<longrightarrow> connection_event (snd (snd (handle_data data c)))"
  by (cases data) (auto simp: listener_raise_def Let_def split: option.splits if_splits)

lemma listener_item_handshake:
  "connected (snd (snd (listener_item loads it c)))
     \<longrightarrow> connection_event (snd (snd (listener_item loads it c)))"
  if "connected c \<longrightarrow> connection_event c"
proof (cases it)
  case (Event d)
  then show ?thesis
    using that handle_data_handshake [of c]
    by (simp add: listener_raise_def split: loads_outcome.splits)
next
  case (StreamError msg)
  then show ?thesis
    by (simp add: listener_raise_def)
qed

lemma listen_until_handshake:
  "connected c \<longrightarrow> connection_event c \<Longrightarrow>
   connected (snd (listen_until wake loads its c))
     \<longrightarrow> connection_event (snd (listen_until wake loads its c))"
proof (induction its arbitrary: c)
  case Nil
  then show ?case by simp
next
  case (Cons it its)
  obtain st fx c' where step: "listener_item loads it c = (st, fx, c')"
    by (cases "listener_item loads it c") auto
  have "connected c' \<longrightarrow> connection_event c'"
    using listener_item_handshake [OF Cons.prems, of loads it] step by simp
  then show ?case
    using step Cons.IH [of c'] Cons.prems
    by (cases st) (auto simp: split_beta)
qed

subsection \<open>What a call to \<open>invoke_tool\<close> does\<close>




subsection \<open>The listener and late results\<close>

text \<open>
  Claim C1. A \<open>tool_result\<close> event whose identifier has no pending entry is to be
  discarded, leaving no entry for that identifier behind. The listener stores the
  payload before it looks for the waiting caller (line 101 comes before the test of
  line 104): on a connected client with both dicts empty, the event for \<open>msg-late\<close> is
  handled without a signal, and afterwards \<open>tool_results\<close> holds its payload under
  \<open>msg-late\<close>, where no caller will ever remove it.
\<close>

theorem late_tool_result_is_stored:
  \<open>tool_events connected_client (KStr ''msg-late'') = None
   \<and> tool_results connected_client (KStr ''msg-late'') = None
   \<and> listener_item sample_loads
        (Event ''{"type": "tool_result", "id": "msg-late", "content": {}}'') connected_client =
      (Continue, [Print (LogToolResult (JStr ''msg-late''))],
       connected_client\<lparr>tool_results :=
          [KStr ''msg-late'' \<mapsto>
             JObj [(''type'', JStr ''tool_result''), (''id'', JStr ''msg-late''),
                   (''content'', JObj [])]]\<rparr>)\<close>
  by (simp add: connected_client_def init_def sample_loads_def deep_text_differs obj_get_def
      obj_get_default_def Let_def)

text \<open>
  An event whose data \<open>json.loads\<close> rejects with \<open>JSONDecodeError\<close> leaves the object as
  it was. While the client is running, the listener prints the text and goes on to
  the next item of the stream.
\<close>

lemma json_decode_error_is_skipped:
  assumes "d \<noteq> []" and "loads d = JSONDecodeError"
  shows "snd (snd (listener_item loads (Event d) c)) = c
    \<and> (if running c
        then fst (listener_item loads (Event d) c) = Continue
           \<and> fst (snd (listener_item loads (Event d) c)) = [Print (LogNonJson d)]
           \<and> listen_until wake loads (Event d # its) c =
               (if wake c then ([], c)
                else (Print (LogNonJson d) # fst (listen_until wake loads its c),
                      snd (listen_until wake loads its c)))
        else fst (listener_item loads (Event d) c) = Stopped
           \<and> fst (snd (listener_item loads (Event d) c)) = [])"
  using assms by (simp add: split_beta)

text \<open>
  Claim C9. An event whose data is not valid JSON is to be logged and skipped, without
  ending the listener. The clause of line 107 catches \<open>JSONDecodeError\<close> only. On a text
  of 2048 opening brackets \<open>json.loads\<close> raises \<open>RecursionError\<close>, which reaches the
  clause of lines 110 to 113: the listener prints a connection error, clears \<open>running\<close>
  and ends, and the event that follows on the stream is never handled.
\<close>

theorem undecodable_text_ends_the_listener:
  "deep_text \<noteq> []
   \<and> sample_loads deep_text = LoadsRaised RecursionError
   \<and> running connected_client
   \<and> listener_item sample_loads (Event deep_text) connected_client =
       (Stopped, [Print (LogSSEError RecursionError), Event_set ConnectionEvent],
        connected_client\<lparr>running := False, connection_event := True\<rparr>)
   \<and> listen_until (\<lambda>s. False) sample_loads [Event deep_text, Event ''not json'']
         connected_client =
       ([Print (LogSSEError RecursionError), Event_set ConnectionEvent],
        connected_client\<lparr>running := False, connection_event := True\<rparr>)"
  by (simp add: deep_text_not_empty sample_loads_def listener_raise_def connected_client_def
      init_def)

subsection \<open>Connecting and disconnecting\<close>

text \<open>
  Claim C3. When the listener fails before the handshake, \<open>connect\<close> is to fail with a
  connection timeout. The listener's \<open>except\<close> clause sets \<open>connection_event\<close> to
  unblock the caller, and \<open>connect\<close> returns \<open>self.client_id\<close> without looking at
  \<open>self.connected\<close>: on a new client whose request for the stream is refused, the call
  returns \<open>None\<close> as if it had succeeded, and the client stays disconnected.
\<close>

theorem connect_returns_none_when_listener_fails:
  "connect sample_loads 10 [StreamError ''Connection refused''] (init ''http://localhost:8080'') =
     (Inr JNull,
      [Thread_start, Print (LogConnecting ''http://localhost:8080/sse''),
       Http_get ''http://localhost:8080/sse'',
       Print (LogSSEError (TransportError ''Connection refused'')),
       Event_set ConnectionEvent, Event_wait ConnectionEvent 10 True],
      (init ''http://localhost:8080'')
        \<lparr>sse_thread := Some Thread, running := False, connection_event := True\<rparr>)"
  by (simp add: connect_def sse_listener_def listener_raise_def init_def rstrip_slash_def)

text \<open>
  Claim C7. On a client whose connected flag is set, \<open>connect\<close> returns the stored
  session identity at once: it starts no thread, waits for nothing, and leaves the
  object as it is. If the object was left connected by an earlier \<open>connect\<close>, the
  repeated call returns what the earlier call returned.
\<close>

theorem connect_on_connected_client:
  assumes "connected c"
  shows "connect loads t items c = (Inr (client_id c), [], c)
       \<and> (connect loads t0 items0 c0 = (r, fx, c) \<longrightarrow> connect loads t items c = (r, [], c))"
proof
  show again: "connect loads t items c = (Inr (client_id c), [], c)"
    using assms by (simp add: connect_def)
  show "connect loads t0 items0 c0 = (r, fx, c) \<longrightarrow> connect loads t items c = (r, [], c)"
  proof
    assume first: "connect loads t0 items0 c0 = (r, fx, c)"
    have "r = Inr (client_id c)"
    proof (cases "connected c0")
      case True
      then show ?thesis
        using first by (auto simp: connect_def)
    next
      case False
      define c1 where "c1 = c0\<lparr>running := True, sse_thread := Some Thread\<rparr>"
      obtain heard c2 where heard: "listen_until connection_event loads items0 c1 = (heard, c2)"
        by force
      have "connected c1 \<longrightarrow> connection_event c1"
        using False by (simp add: c1_def)
      then have "connected c2 \<longrightarrow> connection_event c2"
        using listen_until_handshake [of c1 connection_event loads items0] heard by simp
      moreover have "c2 = c \<and> (connection_event c2 \<longrightarrow> r = Inr (client_id c2))"
        using first False heard
        by (auto simp: connect_def sse_listener_def Let_def c1_def [symmetric] split: if_splits)
      ultimately show ?thesis
        using assms by simp
    qed
    then show "connect loads t items c = (r, [], c)"
      using again by simp
  qed
qed

theorem connect_on_connected_client_witness:
  fixes first
  defines \<open>first \<equiv>
     connect sample_loads 10 [Event ''keep-alive'', Event ''{"type": "connected", "clientId": "abc123"}'']
       (init ''http://localhost:8080'')\<close>
  shows \<open>fst first = Inr (JStr ''abc123'')
   \<and> connected (snd (snd first))
   \<and> connect sample_loads 10 [Event ''{"type": "connected", "clientId": "abc123"}''] (snd (snd first)) =
       (Inr (JStr ''abc123''), [], snd (snd first))\<close>
proof -
  have identity: "fst first = Inr (JStr ''abc123'')"
    by (simp add: first_def connect_def sse_listener_def init_def sample_loads_def
        deep_text_differs obj_get_def obj_get_default_def)
  have shaken: "connected (snd (snd first))"
    by (simp add: first_def connect_def sse_listener_def init_def sample_loads_def
        deep_text_differs obj_get_def obj_get_default_def)
  have earlier: \<open>connect sample_loads 10
       [Event ''keep-alive'', Event ''{"type": "connected", "clientId": "abc123"}'']
       (init ''http://localhost:8080'') = (fst first, fst (snd first), snd (snd first))\<close>
    by (simp add: first_def)
  have \<open>connect sample_loads 10 [Event ''{"type": "connected", "clientId": "abc123"}'']
       (snd (snd first)) = (fst first, [], snd (snd first))\<close>
    using connect_on_connected_client [OF shaken, of sample_loads 10
        \<open>[Event ''{"type": "connected", "clientId": "abc123"}'']\<close> 10
        \<open>[Event ''keep-alive'', Event ''{"type": "connected", "clientId": "abc123"}'']\<close>
        "init ''http://localhost:8080''" "fst first" "fst (snd first)"]
      earlier
    by blast
  then show ?thesis
    using identity shaken by simp
qed

text \<open>
  Claim C8. \<open>disconnect\<close> returns normally and resets the session identity, the
  connected flag and the cached tool list to their initial values. A second call
  returns normally too and leaves the object exactly as the first call left it; on
  a client that never connected it changes nothing.
\<close>

theorem disconnect_clears_session_state:
  "fst (disconnect c) = Inr JNull
   \<and> client_id (snd (snd (disconnect c))) = JNull
   \<and> connected (snd (snd (disconnect c))) = False
   \<and> tools_cache (snd (snd (disconnect c))) = JNull
   \<and> fst (disconnect (snd (snd (disconnect c)))) = Inr JNull
   \<and> snd (snd (disconnect (snd (snd (disconnect c))))) = snd (snd (disconnect c))
   \<and> snd (snd (disconnect (init url))) = init url"
  by (simp add: disconnect_def init_def)

subsection \<open>The tool list\<close>

text \<open>
  Claim C10. \<open>get_tools\<close> always returns a value. The cache counts as set when it
  passes the test of line 127, which an empty list fails as \<open>None\<close> does. With the cache
  set, the call returns it with no request and no change. Otherwise it requests the
  list: a failed request returns the empty list and leaves the object unchanged, so
  the next call requests again; after the call the cache is set only if the request
  answered with that non-empty list, which is then what every later call returns
  without a request; an empty fetched list is returned, leaves the cache failing the
  test, and is requested again by the next call.
\<close>

theorem get_tools_never_raises_and_keeps_non_empty_list:
  fixes resp c
  defines "after \<equiv> snd (snd (get_tools resp c))"
  shows "(\<exists>tools. fst (get_tools resp c) = Inr tools)
   \<and> (truthy (tools_cache c) \<longrightarrow> get_tools resp c = (Inr (tools_cache c), [], c))
   \<and> (\<not> truthy (tools_cache c) \<longrightarrow>
        Http_get (server_url c @ ''/tools'') \<in> set (fst (snd (get_tools resp c))))
   \<and> (\<not> truthy (tools_cache c) \<and> resp = Raised msg body \<longrightarrow>
        fst (get_tools resp c) = Inr (JArr []) \<and> after = c
        \<and> Http_get (server_url c @ ''/tools'') \<in> set (fst (snd (get_tools resp' after))))
   \<and> (\<not> truthy (tools_cache c) \<and> truthy (tools_cache after) \<longrightarrow>
        (\<exists>n. fetch_tools resp = Inr (tools_cache after, n))
        \<and> fst (get_tools resp c) = Inr (tools_cache after)
        \<and> get_tools resp' after = (Inr (tools_cache after), [], after))
   \<and> (\<not> truthy (tools_cache c) \<and> fetch_tools resp = Inr (JArr [], n) \<longrightarrow>
        fst (get_tools resp c) = Inr (JArr []) \<and> \<not> truthy (tools_cache after)
        \<and> Http_get (server_url c @ ''/tools'') \<in> set (fst (snd (get_tools resp' after))))"
  unfolding after_def
  by (cases "fetch_tools resp") (auto simp: get_tools_def Let_def split: sum.splits)

theorem get_tools_never_raises_and_keeps_non_empty_list_witness:
  fixes tools cached
  defines "tools \<equiv> JArr [JObj [(''name'', JStr ''readDirectory'')]]"
    and "cached \<equiv> connected_client\<lparr>tools_cache := tools\<rparr>"
  shows "get_tools (Responded (JObj [(''tools'', tools)])) connected_client =
       (Inr tools,
        [Print (LogGettingTools ''http://localhost:8080/tools''),
         Http_get ''http://localhost:8080/tools'', Print (LogRetrieved 1)],
        cached)
   \<and> get_tools (Raised ''Connection refused'' None) cached = (Inr tools, [], cached)
   \<and> fst (get_tools (Raised ''Connection refused'' None) connected_client) = Inr (JArr [])
   \<and> snd (snd (get_tools (Raised ''Connection refused'' None) connected_client)) = connected_client"
proof -
  have unset: "\<not> truthy (tools_cache connected_client)"
    by (simp add: connected_client_def init_def)
  have filled: "truthy (tools_cache cached)"
    by (simp add: cached_def tools_def)
  have fetched: "get_tools (Responded (JObj [(''tools'', tools)])) connected_client =
       (Inr tools,
        [Print (LogGettingTools ''http://localhost:8080/tools''),
         Http_get ''http://localhost:8080/tools'', Print (LogRetrieved 1)],
        cached)"
    by (simp add: get_tools_def obj_get_default_def tools_def cached_def connected_client_def
        init_def rstrip_slash_def Let_def)
  have "get_tools (Raised ''Connection refused'' None) cached = (Inr (tools_cache cached), [], cached)"
    using get_tools_never_raises_and_keeps_non_empty_list
      [where resp = "Raised ''Connection refused'' None" and c = cached] filled
    by blast
  moreover have "fst (get_tools (Raised ''Connection refused'' None) connected_client) = Inr (JArr [])
      \<and> snd (snd (get_tools (Raised ''Connection refused'' None) connected_client)) = connected_client"
    using get_tools_never_raises_and_keeps_non_empty_list
      [where resp = "Raised ''Connection refused'' None" and c = connected_client
         and msg = "''Connection refused''" and body = None] unset
    by blast
  ultimately show ?thesis
    using fetched by (simp add: cached_def)
qed

subsection \<open>Invoking a tool\<close>



text \<open>
  Claim C5. When no session identity is set, \<open>invoke_tool\<close> returns the not-connected
  error at once: it posts nothing and waits for nothing (all it did was to create the
  event of the new identifier), and nothing the listener might hear is awaited.
\<close>

theorem not_connected_invoke_fails_fast:
  assumes "\<not> truthy (client_id c)"
  shows "invoke_tool loads uuid post in_flight items late tool_name parameters timeout c =
     (Inr (JObj [(''error'', JStr ''Not connected. Call connect() first'')]),
      [Event_new (ToolEvent (KStr (''msg-'' @ uuid)))],
      c\<lparr>tool_events := (tool_events c)(KStr (''msg-'' @ uuid) \<mapsto> False)\<rparr>)"
  using assms by (simp add: invoke_tool_def send_tool_invocation_def Let_def)

theorem not_connected_invoke_fails_fast_witness:
  \<open>invoke_tool sample_loads ''7f3a'' (Responded (JObj [(''status'', JStr ''accepted'')]))
       [Event ''{"type": "tool_result", "id": "msg-7f3a", "content": {}}'']
       [Event ''not json''] [Event ''keep-alive'']
       ''readDirectory'' (JObj [(''dirPath'', JStr ''.'')]) 30
       (init ''http://localhost:8080'') =
     (Inr (JObj [(''error'', JStr ''Not connected. Call connect() first'')]),
      [Event_new (ToolEvent (KStr ''msg-7f3a''))],
      (init ''http://localhost:8080'')\<lparr>tool_events := [KStr ''msg-7f3a'' \<mapsto> False]\<rparr>)\<close>
proof -
  have unset: "\<not> truthy (client_id (init ''http://localhost:8080''))"
    by (simp add: init_def)
  show ?thesis
    using not_connected_invoke_fails_fast [OF unset, of sample_loads "''7f3a''"
        "Responded (JObj [(''status'', JStr ''accepted'')])"
        \<open>[Event ''{"type": "tool_result", "id": "msg-7f3a", "content": {}}'']\<close>
        "[Event ''not json'']" "[Event ''keep-alive'']"
        "''readDirectory''" "JObj [(''dirPath'', JStr ''.'')]" 30]
    by (simp add: init_def)
qed

text \<open>
  Claim C4. When the dispatch fails, the call is to report the failure without waiting
  and to remove the pending request it registered. The call does return the error at
  once, but through the early \<open>return result\<close> of line 161, which skips the \<open>del\<close> that
  the timeout path and the normal path both have: on a connected client with both
  dicts empty, after a refused post the event of \<open>msg-7f3a\<close> is still in \<open>tool_events\<close>.
\<close>

theorem failed_dispatch_keeps_the_handle:
  "invoke_tool sample_loads ''7f3a'' (Raised ''Connection refused'' None) [] [] []
       ''readDirectory'' (JObj [(''dirPath'', JStr ''.'')]) 30 connected_client =
     (Inr (JObj [(''error'', JStr ''Connection refused'')]),
      [Event_new (ToolEvent (KStr ''msg-7f3a'')), Print (LogInvoking ''readDirectory''),
       Print (LogParameters (JObj [(''dirPath'', JStr ''.'')])),
       Http_post ''http://localhost:8080/messages''
         (JObj [(''id'', JStr ''msg-7f3a''), (''type'', JStr ''invoke_tool''),
                (''content'', JObj [(''name'', JStr ''readDirectory''),
                                    (''parameters'', JObj [(''dirPath'', JStr ''.'')])]),
                (''clientId'', JStr ''abc123'')]),
       Print (LogSendError ''Connection refused'')],
      connected_client\<lparr>tool_events := [KStr ''msg-7f3a'' \<mapsto> False]\<rparr>)"
  by (simp add: invoke_tool_def send_tool_invocation_def connected_client_def init_def
      rstrip_slash_def Let_def)

text \<open>
  Claim C2. After a call whose wait expired, neither \<open>tool_events\<close> nor \<open>tool_results\<close>
  is to hold the identifier, so that timed-out calls leave nothing behind. The timeout
  path removes the entry of \<open>tool_events\<close> only (line 166); it has no counterpart of the
  removal from \<open>tool_results\<close> of lines 174 and 175. When the listener handles the result
  between the expiry of the wait and line 166, the call returns the timeout error with
  the payload stored under its identifier. When the result arrives after the call has
  returned, the listener stores it all the same, and no later call removes it.
\<close>

theorem timed_out_invoke_can_leave_the_payload:
  fixes raced quiet
  defines \<open>raced \<equiv>
     invoke_tool sample_loads ''7f3a'' (Responded (JObj [(''status'', JStr ''accepted'')]))
       [] [Event ''not json'']
       [Event ''{"type": "tool_result", "id": "msg-7f3a", "content": {}}'']
       ''readDirectory'' (JObj [(''dirPath'', JStr ''.'')]) 5 connected_client\<close>
    and \<open>quiet \<equiv>
     invoke_tool sample_loads ''7f3a'' (Responded (JObj [(''status'', JStr ''accepted'')]))
       [] [Event ''not json''] []
       ''readDirectory'' (JObj [(''dirPath'', JStr ''.'')]) 5 connected_client\<close>
  shows \<open>fst raced = Inr (JObj [(''error'', JStr ''Timeout waiting for tool result after 5 seconds'')])
   \<and> Event_wait (ToolEvent (KStr ''msg-7f3a'')) 5 False \<in> set (fst (snd raced))
   \<and> tool_events (snd (snd raced)) (KStr ''msg-7f3a'') = None
   \<and> tool_results (snd (snd raced)) (KStr ''msg-7f3a'') =
       Some (JObj [(''type'', JStr ''tool_result''), (''id'', JStr ''msg-7f3a''),
                   (''content'', JObj [])])
   \<and> fst quiet = Inr (JObj [(''error'', JStr ''Timeout waiting for tool result after 5 seconds'')])
   \<and> tool_events (snd (snd quiet)) (KStr ''msg-7f3a'') = None
   \<and> tool_results (snd (snd quiet)) (KStr ''msg-7f3a'') = None
   \<and> tool_results (snd (snd (listener_item sample_loads
         (Event ''{"type": "tool_result", "id": "msg-7f3a", "content": {}}'') (snd (snd quiet)))))
       (KStr ''msg-7f3a'') =
       Some (JObj [(''type'', JStr ''tool_result''), (''id'', JStr ''msg-7f3a''),
                   (''content'', JObj [])])\<close>
  by (simp add: raced_def quiet_def invoke_tool_def send_tool_invocation_def connected_client_def
      init_def sample_loads_def deep_text_differs obj_get_def obj_get_default_def Let_def
      str_int_def str_nat.simps)

end
